theory Spec2Isabelle
  imports Complex_Main "HOL-Library.List_Lexorder" "HOL-Library.Char_ord"
begin

section \<open>py-dedup: time-bound message deduplication\<close>

text \<open>
  A shallow embedding of the package \<^verbatim>\<open>py_dedup\<close>: the exception classes of
  \<^verbatim>\<open>exceptions.py\<close>, the in-memory cache of \<^verbatim>\<open>cache/memory.py\<close>, the hasher of
  \<^verbatim>\<open>hasher.py\<close> and the deduplicator of \<^verbatim>\<open>deduplicator.py\<close>.

  Conventions of the embedding.
  \<^item> A Python \<^verbatim>\<open>str\<close> is a \<^typ>\<open>string\<close> holding its UTF-8 bytes, so that
    \<^verbatim>\<open>s.encode("utf-8")\<close> is the identity and the order on strings (lexicographic on
    bytes) is Python's order on \<^verbatim>\<open>str\<close> (lexicographic on code points).
  \<^item> A reading of \<^verbatim>\<open>time.monotonic()\<close> is a finite double, given as the
    \<^typ>\<open>real\<close> number it denotes; every function that reads the clock takes the
    reading as an argument. Float arithmetic rounds and overflows as Python's does.
  \<^item> A raised exception is a value: a function that may raise returns
    \<open>exn + 'a\<close>, with \<open>Inl\<close> for the exception; a method that mutates its object
    returns the new state of the object as well.
\<close>

subsection \<open>Exceptions (\<^verbatim>\<open>exceptions.py\<close> and the built-in ones that occur)\<close>

text \<open>
  The classes below \<^verbatim>\<open>Exception\<close> that the package defines or meets.
  \<open>OtherError\<close> stands for any further subclass of \<^verbatim>\<open>Exception\<close> unrelated to
  the listed ones. What is not an \<^verbatim>\<open>Exception\<close> (\<^verbatim>\<open>KeyboardInterrupt\<close>,
  \<^verbatim>\<open>SystemExit\<close>) is outside the embedding: no \<^verbatim>\<open>except\<close> clause of the package
  catches it.
\<close>

datatype exc_class =
    DeduplicationError | CacheError | SerializationError | ConfigurationError
  | TypeError | ValueError | JSONDecodeError | AttributeError | KeyError
  | RecursionError | OverflowError | OtherError

text \<open>The direct base class, \<open>None\<close> where the base is \<^verbatim>\<open>Exception\<close> itself
  (or a class not listed).\<close>

fun base_class :: "exc_class \<Rightarrow> exc_class option" where
  "base_class CacheError = Some DeduplicationError"
| "base_class SerializationError = Some DeduplicationError"
| "base_class ConfigurationError = Some DeduplicationError"
| "base_class JSONDecodeError = Some ValueError"
| "base_class _ = None"

definition issubclass :: "exc_class \<Rightarrow> exc_class \<Rightarrow> bool" where
  "issubclass c d \<longleftrightarrow> c = d \<or> base_class c = Some d"

text \<open>
  An exception object: its class, \<^verbatim>\<open>str(e)\<close>, and \<^verbatim>\<open>e.__cause__\<close> (set by
  \<^verbatim>\<open>raise ... from e\<close>). The attribute \<^verbatim>\<open>original_exception\<close> of
  \<^verbatim>\<open>DeduplicationError\<close> is left out: no \<^verbatim>\<open>raise\<close> of the package passes it.
\<close>

datatype exn = Exn (cls: exc_class) (msg: string) (cause: "exn option")

definition isinstance :: "exn \<Rightarrow> exc_class \<Rightarrow> bool" where
  "isinstance e c \<longleftrightarrow> issubclass (cls e) c"

subsection \<open>Python values and the standard library\<close>

text \<open>
  A Python \<^verbatim>\<open>float\<close>: a finite double (\<open>Float x\<close>, with \<open>Float 0\<close> the positive
  zero), the negative zero, an infinity or a NaN.
\<close>

datatype pyfloat = Float real | NegZero | PosInfinity | NegInfinity | NaN

text \<open>
  The JSON-shaped Python values: \<^verbatim>\<open>None\<close>, \<^verbatim>\<open>bool\<close>, \<^verbatim>\<open>int\<close>, \<^verbatim>\<open>float\<close>,
  \<^verbatim>\<open>str\<close>, \<^verbatim>\<open>list\<close> and \<^verbatim>\<open>dict\<close> with \<^verbatim>\<open>str\<close> keys. A \<^verbatim>\<open>dict\<close> is the list of
  its items in insertion order; Python keeps its keys pairwise distinct (\<open>wf_pyval\<close>).
\<close>

datatype pyval =
    PyNone | PyBool bool | PyInt int | PyFloat pyfloat | PyStr string
  | PyList "pyval list" | PyDict "(string \<times> pyval) list"

text \<open>
  A message is any Python object: a JSON-shaped value, or some other object, which
  \<^verbatim>\<open>json.dumps\<close> rejects. Of such an object only \<^verbatim>\<open>SerializeToString\<close> matters:
  \<open>Object None\<close> has no such attribute, \<open>Object (Some r)\<close> has the method, and calling
  it raises or returns bytes as \<open>r\<close> says. The hasher's keyword arguments
  (\<^verbatim>\<open>**kwargs\<close>) are taken to be empty.
\<close>

datatype message = Data pyval | Object "(exn + string) option"

text \<open>
  What the package takes from the interpreter and its library, and whose code is not
  part of it, is a parameter of the embedding:
  \<^item> \<^verbatim>\<open>json.loads\<close> on a \<^verbatim>\<open>str\<close>;
  \<^item> \<^verbatim>\<open>float.__repr__\<close> on a finite float (used by \<^verbatim>\<open>json.dumps\<close>);
  \<^item> \<^verbatim>\<open>hashlib.new(name)\<close> followed by \<^verbatim>\<open>update(b)\<close> and \<^verbatim>\<open>hexdigest()\<close>, for the
    three algorithm names of \<open>HashAlgorithm\<close>;
  \<^item> the rounding of a real number to the nearest double (used below the overflow
    threshold only);
  \<^item> the number of nested containers \<^verbatim>\<open>json.dumps\<close> can enter before the interpreter's
    recursion limit is reached.
\<close>

record stdlib =
  json_loads :: "string \<Rightarrow> exn + pyval"
  float_repr :: "pyfloat \<Rightarrow> string"
  hashlib_hexdigest :: "string \<Rightarrow> string \<Rightarrow> string"
  float_round :: "real \<Rightarrow> real"
  recursion_limit :: nat

subsection \<open>Float arithmetic\<close>

text \<open>
  The largest double is \<open>2^1024 - 2^971\<close>. A number of magnitude \<open>2^1024 - 2^970\<close> or
  more, half way to the next power of two or beyond, does not round to a finite double.
\<close>

definition float_overflow :: real where
  "float_overflow = 2 ^ 1024 - 2 ^ 970"

text \<open>
  The conversion of an \<^verbatim>\<open>int\<close> operand of a float operation to a double: it raises
  \<^verbatim>\<open>OverflowError\<close> for an \<^verbatim>\<open>int\<close> too large, and rounds otherwise.
\<close>

definition float_of_int :: "stdlib \<Rightarrow> int \<Rightarrow> exn + real" where
  "float_of_int L n =
     (if float_overflow \<le> \<bar>real_of_int n\<bar>
      then Inl (Exn OverflowError ''int too large to convert to float'' None)
      else Inr (float_round L (real_of_int n)))"

text \<open>
  What the sum of two finite doubles can be, hence what the cache can hold as an
  expiry instant: a finite double or an infinity; with \<^verbatim>\<open><\<close> and \<^verbatim>\<open><=\<close> on such
  floats.
\<close>

datatype instant = Finite real | PosInf | NegInf

fun float_lt :: "instant \<Rightarrow> instant \<Rightarrow> bool" where
  "float_lt (Finite x) (Finite y) = (x < y)"
| "float_lt NegInf b = (b \<noteq> NegInf)"
| "float_lt a PosInf = (a \<noteq> PosInf)"
| "float_lt a b = False"

fun float_le :: "instant \<Rightarrow> instant \<Rightarrow> bool" where
  "float_le (Finite x) (Finite y) = (x \<le> y)"
| "float_le NegInf b = True"
| "float_le a PosInf = True"
| "float_le a b = False"

text \<open>The sum \<^verbatim>\<open>x + y\<close> of two finite doubles: addition never raises, it overflows to
  an infinity.\<close>

definition float_add :: "stdlib \<Rightarrow> real \<Rightarrow> real \<Rightarrow> instant" where
  "float_add L x y =
     (if float_overflow \<le> x + y then PosInf
      else if x + y \<le> - float_overflow then NegInf
      else Finite (float_round L (x + y)))"

subsection \<open>\<^verbatim>\<open>collections.OrderedDict\<close>\<close>

text \<open>
  An ordered dictionary from \<^verbatim>\<open>str\<close> to \<^verbatim>\<open>float\<close> is the list of its items in
  iteration order, oldest first, with pairwise distinct keys.
\<close>

type_synonym ordered_dict = "(string \<times> instant) list"

definition od_keys :: "ordered_dict \<Rightarrow> string set" where
  "od_keys od = fst ` set od"

definition od_inv :: "ordered_dict \<Rightarrow> bool" where
  "od_inv od \<longleftrightarrow> distinct (map fst od)"

text \<open>\<^verbatim>\<open>od.get(key)\<close>: the value, \<^verbatim>\<open>None\<close> for a missing key.\<close>

definition od_get :: "string \<Rightarrow> ordered_dict \<Rightarrow> instant option" where
  "od_get key od = map_of od key"

text \<open>\<^verbatim>\<open>od[key] = v\<close>: an existing key keeps its position, a new key goes to the end.\<close>

fun od_setitem :: "string \<Rightarrow> instant \<Rightarrow> ordered_dict \<Rightarrow> ordered_dict" where
  "od_setitem key v [] = [(key, v)]"
| "od_setitem key v ((k, w) # od) =
     (if k = key then (key, v) # od else (k, w) # od_setitem key v od)"

text \<open>\<^verbatim>\<open>od.move_to_end(key)\<close>: raises \<^verbatim>\<open>KeyError\<close> for a missing key.\<close>

definition od_move_to_end :: "string \<Rightarrow> ordered_dict \<Rightarrow> exn + ordered_dict" where
  "od_move_to_end key od =
     (case map_of od key of
        None \<Rightarrow> Inl (Exn KeyError key None)
      | Some v \<Rightarrow> Inr (filter (\<lambda>p. fst p \<noteq> key) od @ [(key, v)]))"

text \<open>\<^verbatim>\<open>od.pop(key, None)\<close>, the returned value dropped.\<close>

definition od_pop :: "string \<Rightarrow> ordered_dict \<Rightarrow> ordered_dict" where
  "od_pop key od = filter (\<lambda>p. fst p \<noteq> key) od"

subsection \<open>\<^verbatim>\<open>MemoryCache\<close> (\<^verbatim>\<open>cache/memory.py\<close>)\<close>

text \<open>The object's only attribute is \<^verbatim>\<open>_cache\<close>, a key \<open>\<mapsto>\<close> expiry instant
  ordered dictionary.\<close>

type_synonym MemoryCache = ordered_dict

definition MemoryCache_init :: MemoryCache where
  "MemoryCache_init = []"

definition MemoryCache_delete :: "string \<Rightarrow> MemoryCache \<Rightarrow> MemoryCache" where
  "MemoryCache_delete key c = od_pop key c"

text \<open>
  \<^verbatim>\<open>MemoryCache.get(key)\<close>; \<open>now\<close> is the reading of \<^verbatim>\<open>time.monotonic()\<close>, taken
  only when the key is in the dictionary. Returns the new state and the result.
\<close>

definition MemoryCache_get :: "string \<Rightarrow> real \<Rightarrow> MemoryCache \<Rightarrow> MemoryCache \<times> bool" where
  "MemoryCache_get key now c =
     (case od_get key c of
        None \<Rightarrow> (c, False)
      | Some expire_time \<Rightarrow>
          if float_lt expire_time (Finite now) then (MemoryCache_delete key c, False)
          else (c, True))"

text \<open>
  \<^verbatim>\<open>MemoryCache.set(key, ttl_seconds)\<close>; \<open>now\<close> is the reading of
  \<^verbatim>\<open>time.monotonic()\<close>. The sum \<^verbatim>\<open>time.monotonic() + ttl_seconds\<close> of a float and
  an \<^verbatim>\<open>int\<close> converts the \<^verbatim>\<open>int\<close> first, and is evaluated before the dictionary is
  touched. Returns the new state and either the exception raised or \<^verbatim>\<open>None\<close>.
\<close>

definition MemoryCache_set ::
  "stdlib \<Rightarrow> string \<Rightarrow> int \<Rightarrow> real \<Rightarrow> MemoryCache \<Rightarrow> MemoryCache \<times> (exn + unit)" where
  "MemoryCache_set L key ttl_seconds now c =
     (if ttl_seconds \<le> 0 then (c, Inl (Exn CacheError ''TTL must be a positive number'' None))
      else
        (case float_of_int L ttl_seconds of
           Inl e \<Rightarrow> (c, Inl e)
         | Inr ttl \<Rightarrow>
             let c1 = od_setitem key (float_add L now ttl) c in
             (case od_move_to_end key c1 of
                Inl e \<Rightarrow> (c1, Inl e)
              | Inr c2 \<Rightarrow> (c2, Inr ()))))"

definition MemoryCache_clear :: "MemoryCache \<Rightarrow> MemoryCache" where
  "MemoryCache_clear c = []"

text \<open>\<^verbatim>\<open>MemoryCache._clean_expired()\<close>, with the one reading of the clock it takes, and
  \<^verbatim>\<open>MemoryCache.__contains__(key)\<close>.\<close>

definition MemoryCache_clean_expired :: "real \<Rightarrow> MemoryCache \<Rightarrow> MemoryCache" where
  "MemoryCache_clean_expired current_time c =
     fold MemoryCache_delete
       (map fst (filter (\<lambda>(k, v). float_lt v (Finite current_time)) c)) c"

definition MemoryCache_contains :: "string \<Rightarrow> real \<Rightarrow> MemoryCache \<Rightarrow> MemoryCache \<times> bool" where
  "MemoryCache_contains key now c = MemoryCache_get key now c"

subsubsection \<open>\<^verbatim>\<open>json.dumps(obj, sort_keys=sk, ensure_ascii=False)\<close>\<close>

text \<open>
  The encoder of \<^verbatim>\<open>json/encoder.py\<close> with its default separators \<^verbatim>\<open>', '\<close> and
  \<^verbatim>\<open>': '\<close>. A string is quoted, with backslash, double quote and the control
  characters below \<^verbatim>\<open>0x20\<close> escaped (\<^verbatim>\<open>ESCAPE_DCT\<close>); nothing else is.
\<close>

definition hex_digit :: "nat \<Rightarrow> char" where
  "hex_digit d = ''0123456789abcdef'' ! (d mod 16)"

definition escape_char :: "char \<Rightarrow> string" where
  "escape_char c =
     (if c = CHR 0x5C then [CHR 0x5C, CHR 0x5C]
      else if c = CHR 0x22 then [CHR 0x5C, CHR 0x22]
      else if c = CHR 0x08 then [CHR 0x5C, CHR ''b'']
      else if c = CHR 0x0C then [CHR 0x5C, CHR ''f'']
      else if c = CHR 0x0A then [CHR 0x5C, CHR ''n'']
      else if c = CHR 0x0D then [CHR 0x5C, CHR ''r'']
      else if c = CHR 0x09 then [CHR 0x5C, CHR ''t'']
      else if (of_char c :: nat) < 0x20
        then [CHR 0x5C, CHR ''u'', CHR ''0'', CHR ''0'',
              hex_digit (of_char c div 16), hex_digit (of_char c)]
      else [c])"

definition encode_basestring :: "string \<Rightarrow> string" where
  "encode_basestring s = [CHR 0x22] @ concat (map escape_char s) @ [CHR 0x22]"

text \<open>\<^verbatim>\<open>int.__repr__\<close>: decimal digits, with a minus sign for a negative number.\<close>

function nat_repr :: "nat \<Rightarrow> string" where
  "nat_repr n =
     (if n < 10 then [''0123456789'' ! n]
      else nat_repr (n div 10) @ [''0123456789'' ! (n mod 10)])"
  by pat_completeness auto
termination
  by (relation "measure id") auto

definition int_repr :: "int \<Rightarrow> string" where
  "int_repr i = (if i < 0 then CHR ''-'' # nat_repr (nat (- i)) else nat_repr (nat i))"

text \<open>\<^verbatim>\<open>sep.join(xs)\<close>\<close>

fun join :: "string \<Rightarrow> string list \<Rightarrow> string" where
  "join sep [] = []"
| "join sep [x] = x"
| "join sep (x # y # ys) = x @ sep @ join sep (y # ys)"

lemma size_dict_item:
  "(k, v) \<in> set kvs \<Longrightarrow> size v < Suc (size_list (\<lambda>x. Suc (size (snd x))) kvs)"
  by (induction kvs) auto

text \<open>
  With \<^verbatim>\<open>sort_keys\<close> the encoder iterates over \<^verbatim>\<open>sorted(dct.items())\<close>; the keys of
  a \<^verbatim>\<open>dict\<close> are distinct, so the items are compared by their keys alone.
\<close>

function dumps :: "(pyfloat \<Rightarrow> string) \<Rightarrow> bool \<Rightarrow> pyval \<Rightarrow> string" where
  "dumps F sk PyNone = ''null''"
| "dumps F sk (PyBool b) = (if b then ''true'' else ''false'')"
| "dumps F sk (PyInt n) = int_repr n"
| "dumps F sk (PyFloat x) = F x"
| "dumps F sk (PyStr s) = encode_basestring s"
| "dumps F sk (PyList xs) = ''['' @ join '', '' (map (dumps F sk) xs) @ '']''"
| "dumps F sk (PyDict kvs) =
     ''{'' @ join '', ''
       (map (\<lambda>(k, v). encode_basestring k @ '': '' @ dumps F sk v)
            (if sk then sort_key fst kvs else kvs)) @ ''}''"
  by pat_completeness auto
termination
  by (relation "measure (\<lambda>(F, sk, v). size v)")
     (auto simp: size_dict_item less_Suc_eq_le size_list_estimation' split: if_splits)

text \<open>
  The encoder's \<^verbatim>\<open>floatstr\<close> (with the default \<^verbatim>\<open>allow_nan=True\<close>): its own names
  for NaN and the infinities, \<^verbatim>\<open>float.__repr__\<close> for the rest.
\<close>

definition floatstr :: "stdlib \<Rightarrow> pyfloat \<Rightarrow> string" where
  "floatstr L x =
     (case x of
        NaN \<Rightarrow> ''NaN''
      | PosInfinity \<Rightarrow> ''Infinity''
      | NegInfinity \<Rightarrow> ''-Infinity''
      | _ \<Rightarrow> float_repr L x)"

text \<open>The number of containers nested in a value: what the encoder's recursion
  reaches.\<close>

function depth :: "pyval \<Rightarrow> nat" where
  "depth (PyList xs) = Suc (Max (insert 0 (depth ` set xs)))"
| "depth (PyDict kvs) = Suc (Max (insert 0 ((\<lambda>p. depth (snd p)) ` set kvs)))"
| "depth PyNone = 0"
| "depth (PyBool b) = 0"
| "depth (PyInt n) = 0"
| "depth (PyFloat x) = 0"
| "depth (PyStr s) = 0"
  by pat_completeness auto
termination
  by (relation "measure size")
     (auto simp: less_Suc_eq_le size_list_estimation' intro: size_dict_item [THEN less_imp_le, of "fst p" "snd p" for p])

text \<open>
  \<^verbatim>\<open>json.dumps\<close> on any message: an object that is not JSON-shaped raises
  \<^verbatim>\<open>TypeError\<close>, a value nested deeper than the interpreter allows raises
  \<^verbatim>\<open>RecursionError\<close>.
\<close>

definition json_dumps :: "stdlib \<Rightarrow> bool \<Rightarrow> message \<Rightarrow> exn + string" where
  "json_dumps L sk m =
     (case m of
        Data v \<Rightarrow>
          if recursion_limit L < depth v
          then Inl (Exn RecursionError
                      ''maximum recursion depth exceeded while encoding a JSON object'' None)
          else Inr (dumps (floatstr L) sk v)
      | Object _ \<Rightarrow> Inl (Exn TypeError ''Object is not JSON serializable'' None))"

text \<open>
  \<^verbatim>\<open>str.lower()\<close>, on the ASCII letters. (Python lowers other letters as well; none of
  them becomes a letter of \<^verbatim>\<open>json\<close> or \<^verbatim>\<open>protobuf\<close>.)
\<close>

definition char_lower :: "char \<Rightarrow> char" where
  "char_lower c =
     (if 65 \<le> (of_char c :: nat) \<and> (of_char c :: nat) \<le> 90
      then char_of (of_char c + 32 :: nat) else c)"

definition lower :: "string \<Rightarrow> string" where
  "lower s = map char_lower s"

subsection \<open>\<^verbatim>\<open>MessageHasher\<close> (\<^verbatim>\<open>hasher.py\<close>)\<close>

datatype HashAlgorithm = SHA256 | MD5 | SHA1

fun HashAlgorithm_value :: "HashAlgorithm \<Rightarrow> string" where
  "HashAlgorithm_value SHA256 = ''sha256''"
| "HashAlgorithm_value MD5 = ''md5''"
| "HashAlgorithm_value SHA1 = ''sha1''"

text \<open>
  The constructors do not check the \<^verbatim>\<open>algorithm\<close> argument, so the attribute holds
  whatever was passed: a member of the enumeration, or something else, here a plain
  \<^verbatim>\<open>str\<close> (which has no attribute \<^verbatim>\<open>value\<close>).
\<close>

datatype algorithm_arg = Member HashAlgorithm | PlainStr string

record MessageHasher =
  algorithm :: algorithm_arg
  sort_keys :: bool

definition MessageHasher_init :: "algorithm_arg \<Rightarrow> bool \<Rightarrow> MessageHasher" where
  "MessageHasher_init alg sk = \<lparr>algorithm = alg, sort_keys = sk\<rparr>"

definition hash_bytes :: "stdlib \<Rightarrow> MessageHasher \<Rightarrow> string \<Rightarrow> exn + string" where
  "hash_bytes L h b =
     (case algorithm h of
        PlainStr _ \<Rightarrow> Inl (Exn AttributeError ''str object has no attribute value'' None)
      | Member a \<Rightarrow> Inr (hashlib_hexdigest L (HashAlgorithm_value a) b))"

definition hash_string :: "stdlib \<Rightarrow> MessageHasher \<Rightarrow> string \<Rightarrow> exn + string" where
  "hash_string L h s = hash_bytes L h s"

text \<open>The body of the \<^verbatim>\<open>try\<close> of \<^verbatim>\<open>_hash_json\<close>, then the method with its
  \<^verbatim>\<open>except (TypeError, ValueError)\<close>.\<close>

definition hash_json_try :: "stdlib \<Rightarrow> MessageHasher \<Rightarrow> message \<Rightarrow> exn + string" where
  "hash_json_try L h message =
     (case (case message of
              Data (PyStr s) \<Rightarrow> (case json_loads L s of Inl e \<Rightarrow> Inl e | Inr v \<Rightarrow> Inr (Data v))
            | _ \<Rightarrow> Inr message) of
        Inl e \<Rightarrow> Inl e
      | Inr message' \<Rightarrow>
          (case json_dumps L (sort_keys h) message' of
             Inl e \<Rightarrow> Inl e
           | Inr json_str \<Rightarrow> hash_string L h json_str))"

definition hash_json :: "stdlib \<Rightarrow> MessageHasher \<Rightarrow> message \<Rightarrow> exn + string" where
  "hash_json L h message =
     (case hash_json_try L h message of
        Inl e \<Rightarrow>
          if isinstance e TypeError \<or> isinstance e ValueError
          then Inl (Exn SerializationError
                      (''Failed to serialize message to JSON: '' @ msg e) (Some e))
          else Inl e
      | Inr digest \<Rightarrow> Inr digest)"

text \<open>The body of the \<^verbatim>\<open>try\<close> of \<^verbatim>\<open>_hash_protobuf\<close>, then the method with its
  \<^verbatim>\<open>except Exception\<close>.\<close>

definition hash_protobuf_try :: "stdlib \<Rightarrow> MessageHasher \<Rightarrow> message \<Rightarrow> exn + string" where
  "hash_protobuf_try L h message =
     (case message of
        Object (Some r) \<Rightarrow>
          (case r of Inl e \<Rightarrow> Inl e | Inr serialized \<Rightarrow> hash_bytes L h serialized)
      | _ \<Rightarrow> Inl (Exn AttributeError
                   ''Message does not have SerializeToString method. Is this a valid protobuf message?''
                   None))"

definition hash_protobuf :: "stdlib \<Rightarrow> MessageHasher \<Rightarrow> message \<Rightarrow> exn + string" where
  "hash_protobuf L h message =
     (case hash_protobuf_try L h message of
        Inl e \<Rightarrow> Inl (Exn SerializationError
                        (''Failed to serialize protobuf message: '' @ msg e) (Some e))
      | Inr digest \<Rightarrow> Inr digest)"

definition hash_message :: "stdlib \<Rightarrow> MessageHasher \<Rightarrow> message \<Rightarrow> string \<Rightarrow> exn + string" where
  "hash_message L h message format =
     (let format = lower format in
      if format = ''json'' then hash_json L h message
      else if format = ''protobuf'' then hash_protobuf L h message
      else Inl (Exn SerializationError (''Unsupported message format: '' @ format) None))"

subsection \<open>\<^verbatim>\<open>Deduplicator\<close> (\<^verbatim>\<open>deduplicator.py\<close>)\<close>

record Deduplicator =
  ttl_seconds :: int
  cache :: MemoryCache
  hasher :: MessageHasher
  key_prefix :: string

text \<open>\<^verbatim>\<open>isinstance(x, int)\<close> with the integer the value is: \<^verbatim>\<open>bool\<close> is a subclass of
  \<^verbatim>\<open>int\<close>, \<^verbatim>\<open>True\<close> is 1 and \<^verbatim>\<open>False\<close> is 0.\<close>

fun as_int :: "pyval \<Rightarrow> int option" where
  "as_int (PyInt n) = Some n"
| "as_int (PyBool b) = Some (if b then 1 else 0)"
| "as_int _ = None"

text \<open>
  \<^verbatim>\<open>Deduplicator.__init__(ttl_seconds, cache_backend, hash_algorithm, key_prefix)\<close>.
  A \<^verbatim>\<open>MemoryCache\<close> object is always true, so \<^verbatim>\<open>cache_backend or ...\<close> replaces
  exactly \<^verbatim>\<open>None\<close>.
\<close>

definition Deduplicator_init ::
  "pyval \<Rightarrow> MemoryCache option \<Rightarrow> algorithm_arg \<Rightarrow> string \<Rightarrow> exn + Deduplicator" where
  "Deduplicator_init ttl cache_backend hash_algorithm prefix =
     (case as_int ttl of
        None \<Rightarrow> Inl (Exn ConfigurationError ''ttl_seconds must be a positive integer'' None)
      | Some n \<Rightarrow>
          if n \<le> 0
          then Inl (Exn ConfigurationError ''ttl_seconds must be a positive integer'' None)
          else Inr \<lparr>ttl_seconds = n,
                    cache = (case cache_backend of None \<Rightarrow> MemoryCache_init | Some c \<Rightarrow> c),
                    hasher = MessageHasher_init hash_algorithm True,
                    key_prefix = prefix\<rparr>)"

text \<open>Lines 76 to 81 of \<^verbatim>\<open>is_duplicate\<close>: the cache key.\<close>

definition derive_cache_key ::
  "stdlib \<Rightarrow> Deduplicator \<Rightarrow> message \<Rightarrow> string \<Rightarrow> string option \<Rightarrow> exn + string" where
  "derive_cache_key L d message format custom_key =
     (case custom_key of
        Some ck \<Rightarrow> Inr (key_prefix d @ ck)
      | None \<Rightarrow>
          (case hash_message L (hasher d) message format of
             Inl e \<Rightarrow> Inl e
           | Inr message_hash \<Rightarrow> Inr (key_prefix d @ message_hash)))"

text \<open>
  The body of the \<^verbatim>\<open>try\<close> of \<^verbatim>\<open>is_duplicate\<close>. \<open>t_get\<close> and \<open>t_set\<close> are the readings
  of the clock in \<^verbatim>\<open>cache.get\<close> and in \<^verbatim>\<open>cache.set\<close>. The result is the deduplicator
  after the call, its cache updated, and the exception raised or the value returned.
\<close>

definition is_duplicate_try ::
  "stdlib \<Rightarrow> Deduplicator \<Rightarrow> message \<Rightarrow> string \<Rightarrow> string option \<Rightarrow> real \<Rightarrow> real
     \<Rightarrow> Deduplicator \<times> (exn + bool)" where
  "is_duplicate_try L d message format custom_key t_get t_set =
     (case derive_cache_key L d message format custom_key of
        Inl e \<Rightarrow> (d, Inl e)
      | Inr cache_key \<Rightarrow>
          (case MemoryCache_get cache_key t_get (cache d) of
             (c1, is_dup) \<Rightarrow>
               if \<not> is_dup
               then (case MemoryCache_set L cache_key (ttl_seconds d) t_set c1 of
                       (c2, Inl e) \<Rightarrow> (d\<lparr>cache := c2\<rparr>, Inl e)
                     | (c2, Inr _) \<Rightarrow> (d\<lparr>cache := c2\<rparr>, Inr is_dup))
               else (d\<lparr>cache := c1\<rparr>, Inr is_dup)))"

text \<open>\<^verbatim>\<open>is_duplicate\<close>, with its \<^verbatim>\<open>except Exception\<close>.\<close>

definition is_duplicate ::
  "stdlib \<Rightarrow> Deduplicator \<Rightarrow> message \<Rightarrow> string \<Rightarrow> string option \<Rightarrow> real \<Rightarrow> real
     \<Rightarrow> Deduplicator \<times> (exn + bool)" where
  "is_duplicate L d message format custom_key t_get t_set =
     (case is_duplicate_try L d message format custom_key t_get t_set of
        (d', Inl e) \<Rightarrow>
          if isinstance e SerializationError \<or> isinstance e CacheError then (d', Inl e)
          else (d', Inl (Exn CacheError
                           (''Unexpected error during deduplication: '' @ msg e) (Some e)))
      | (d', Inr b) \<Rightarrow> (d', Inr b))"

definition Deduplicator_clear :: "Deduplicator \<Rightarrow> Deduplicator" where
  "Deduplicator_clear d = d\<lparr>cache := MemoryCache_clear (cache d)\<rparr>"

subsection \<open>Notions of the specification\<close>









text \<open>
  The facts of IEEE arithmetic that the timing properties rest on: rounding to the
  nearest double is monotone, and a number is a double when it is below the overflow
  threshold and rounding leaves it as it is.
\<close>

definition is_double :: "stdlib \<Rightarrow> real \<Rightarrow> bool" where
  "is_double L x \<longleftrightarrow> float_round L x = x \<and> \<bar>x\<bar> < float_overflow"

definition monotone_rounding :: "stdlib \<Rightarrow> bool" where
  "monotone_rounding L \<longleftrightarrow> (\<forall>x y. x \<le> y \<longrightarrow> float_round L x \<le> float_round L y)"

subsection \<open>Sample data\<close>

text \<open>
  A stand-in for the library, for running the functions on concrete inputs.
  \<open>json_loads\<close> agrees with \<^verbatim>\<open>json.loads\<close> on the three strings used below,
  \<^verbatim>\<open>{"b": 2, "a": 1}\<close>, \<^verbatim>\<open>{"id": "123"}\<close> and \<^verbatim>\<open>{"id":\<close> (which is no JSON text);
  \<open>float_repr\<close> agrees with \<^verbatim>\<open>float.__repr__\<close> on \<^verbatim>\<open>0.0\<close>, \<^verbatim>\<open>-0.0\<close> and \<^verbatim>\<open>1.0\<close>;
  the digest is not a hash function, it returns the algorithm's name and the bytes it
  was given; rounding is exact, which is what IEEE rounding is on the doubles and on the
  sums used below; the encoder can enter 1000 nested containers.
\<close>

definition sample_loads :: "string \<Rightarrow> exn + pyval" where
  \<open>sample_loads s =
     (if s = ''{"b": 2, "a": 1}'' then Inr (PyDict [(''b'', PyInt 2), (''a'', PyInt 1)])
      else if s = ''{"id": "123"}'' then Inr (PyDict [(''id'', PyStr ''123'')])
      else Inl (Exn JSONDecodeError ''Expecting value'' None))\<close>

definition sample_repr :: "pyfloat \<Rightarrow> string" where
  "sample_repr x =
     (if x = NegZero then ''-0.0'' else if x = Float 1 then ''1.0'' else ''0.0'')"

definition sample_lib :: stdlib where
  "sample_lib =
     \<lparr>json_loads = sample_loads,
      float_repr = sample_repr,
      hashlib_hexdigest = (\<lambda>name b. name @ '':'' @ b),
      float_round = (\<lambda>x. x),
      recursion_limit = 1000\<rparr>"

definition sample_dedup :: Deduplicator where
  "sample_dedup =
     \<lparr>ttl_seconds = 1, cache = [],
      hasher = \<lparr>algorithm = Member SHA256, sort_keys = True\<rparr>,
      key_prefix = ''dedup:''\<rparr>"



section \<open>Properties\<close>

subsection \<open>Float arithmetic\<close>

lemma float_overflow_large: "2 ^ 64 < float_overflow"
proof -
  have "(2::real) ^ 1024 = 2 ^ 970 * 2 ^ 54" by (simp only: power_add [symmetric]) simp
  then have eq: "float_overflow = 2 ^ 970 * (2 ^ 54 - 1)"
    unfolding float_overflow_def by (simp only: right_diff_distrib mult_1_right)
  have "(2::real) ^ 64 < 2 ^ 970" by (rule power_strict_increasing) simp_all
  also have "(2::real) ^ 970 = 2 ^ 970 * 1" by simp
  also have "\<dots> \<le> 2 ^ 970 * (2 ^ 54 - 1)"
    by (rule mult_left_mono) simp_all
  finally show ?thesis by (simp only: eq)
qed

lemma float_overflow_power: "float_overflow \<le> 2 ^ 1024"
  by (simp add: float_overflow_def)

lemma float_le_iff: "float_le a b \<longleftrightarrow> \<not> float_lt b a"
  by (cases a; cases b) auto

lemma float_of_int_small:
  "\<bar>real_of_int n\<bar> \<le> 2 ^ 64 \<Longrightarrow> float_of_int L n = Inr (float_round L (real_of_int n))"
  using float_overflow_large by (simp add: float_of_int_def)

lemma float_add_small:
  "\<bar>x + y\<bar> \<le> 2 ^ 64 \<Longrightarrow> float_add L x y = Finite (float_round L (x + y))"
  using float_overflow_large by (auto simp: float_add_def)

lemma float_of_int_overflow:
  "float_of_int L (2 ^ 1024) = Inl (Exn OverflowError ''int too large to convert to float'' None)"
  using float_overflow_power by (simp add: float_of_int_def)

lemma float_of_int_Inr_iff:
  "float_of_int L n = Inr y \<longleftrightarrow> \<bar>real_of_int n\<bar> < float_overflow \<and> y = float_round L (real_of_int n)"
  by (auto simp: float_of_int_def)

lemma float_of_int_Inl_iff:
  "float_of_int L n = Inl e \<longleftrightarrow>
     float_overflow \<le> \<bar>real_of_int n\<bar> \<and> e = Exn OverflowError ''int too large to convert to float'' None"
  by (auto simp: float_of_int_def)

text \<open>A double reading that comes before the exact sum comes no later than the float sum.\<close>

lemma before_float_sum:
  assumes "monotone_rounding L" and "is_double L t2" and "t2 < x + y"
  shows "float_le (Finite t2) (float_add L x y)"
proof -
  from assms(2) have r: "float_round L t2 = t2" and b: "\<bar>t2\<bar> < float_overflow"
    by (simp_all add: is_double_def)
  show ?thesis
  proof (cases "float_overflow \<le> x + y")
    case True
    then show ?thesis by (simp add: float_add_def)
  next
    case False
    from b assms(3) have "\<not> x + y \<le> - float_overflow" by linarith
    moreover from assms(1,3) have "float_round L t2 \<le> float_round L (x + y)"
      by (simp add: monotone_rounding_def)
    ultimately show ?thesis using False r by (simp add: float_add_def)
  qed
qed

lemma sample_monotone: "monotone_rounding sample_lib"
  by (simp add: monotone_rounding_def sample_lib_def)

lemma sample_is_double: "\<bar>x\<bar> \<le> 2 ^ 64 \<Longrightarrow> is_double sample_lib x"
  using float_overflow_large by (simp add: is_double_def sample_lib_def)

lemma sample_round [simp]: "float_round sample_lib x = x"
  by (simp add: sample_lib_def)

subsection \<open>The ordered dictionary and the cache\<close>

lemma map_of_od_setitem: "map_of (od_setitem key v od) key = Some v"
  by (induction od) auto

lemma filter_od_setitem:
  "filter (\<lambda>p. fst p \<noteq> key) (od_setitem key v od) = filter (\<lambda>p. fst p \<noteq> key) od"
  by (induction od) auto

lemma od_move_to_end_setitem:
  "od_move_to_end key (od_setitem key v od) = Inr (od_pop key od @ [(key, v)])"
  by (simp add: od_move_to_end_def od_pop_def map_of_od_setitem filter_od_setitem)

lemma od_keys_pop: "od_keys (od_pop key od) = od_keys od - {key}"
  by (auto simp: od_keys_def od_pop_def)

lemma od_get_pop: "od_get k (od_pop key od) = (if k = key then None else od_get k od)"
  by (induction od) (auto simp: od_get_def od_pop_def)

lemma od_get_None_iff: "od_get key od = None \<longleftrightarrow> key \<notin> od_keys od"
  by (simp add: od_get_def od_keys_def map_of_eq_None_iff)

lemma od_pop_absent: "key \<notin> od_keys od \<Longrightarrow> od_pop key od = od"
  by (induction od) (auto simp: od_keys_def od_pop_def)

lemma od_get_snoc: "od_get k (od_pop key c @ [(key, v)]) = (if k = key then Some v else od_get k c)"
proof -
  have "map_of (od_pop key c) k = (if k = key then None else map_of c k)"
    using od_get_pop [of k key c] by (simp add: od_get_def)
  then show ?thesis
    by (simp add: od_get_def map_add_def split: option.splits)
qed

lemma od_inv_snoc: "od_inv c \<Longrightarrow> od_inv (od_pop key c @ [(key, v)])"
  by (auto simp: od_inv_def od_pop_def distinct_map_filter)

lemma MemoryCache_set_ok:
  "0 < ttl \<Longrightarrow> float_of_int L ttl = Inr y \<Longrightarrow>
   MemoryCache_set L key ttl now c = (od_pop key c @ [(key, float_add L now y)], Inr ())"
  by (simp add: MemoryCache_set_def od_move_to_end_setitem)

lemma MemoryCache_set_nonpositive:
  "ttl \<le> 0 \<Longrightarrow>
   MemoryCache_set L key ttl now c =
     (c, Inl (Exn CacheError ''TTL must be a positive number'' None))"
  by (simp add: MemoryCache_set_def)

lemma MemoryCache_set_overflow:
  "0 < ttl \<Longrightarrow> float_of_int L ttl = Inl e \<Longrightarrow> MemoryCache_set L key ttl now c = (c, Inl e)"
  by (simp add: MemoryCache_set_def)

lemma MemoryCache_get_absent: "key \<notin> od_keys c \<Longrightarrow> MemoryCache_get key now c = (c, False)"
  by (simp add: MemoryCache_get_def od_get_None_iff [symmetric])

lemma MemoryCache_get_after_set:
  "float_le (Finite now) v \<Longrightarrow>
   MemoryCache_get key now (od_pop key c @ [(key, v)]) = (od_pop key c @ [(key, v)], True)"
  by (simp add: MemoryCache_get_def od_get_snoc float_le_iff)

lemma MemoryCache_get_False_absent:
  "MemoryCache_get key now c = (c', False) \<Longrightarrow> c' = od_pop key c \<and> key \<notin> od_keys c'"
  by (auto simp: MemoryCache_get_def MemoryCache_delete_def od_keys_pop od_pop_absent
      od_get_None_iff split: option.splits if_splits)

lemma MemoryCache_get_True_same: "MemoryCache_get key now c = (c', True) \<Longrightarrow> c' = c"
  by (auto simp: MemoryCache_get_def split: option.splits if_splits)

text \<open>
  Claim C3, as the specification states it, makes an entry live iff the clock reading is
  strictly less than the stored expiry instant. The code deletes an entry when
  \<^verbatim>\<open>expire_time < time.monotonic()\<close>, so at the expiry instant itself the entry
  still counts: with the key stored to expire at 5 and the clock at 5, \<^verbatim>\<open>get\<close> returns
  \<^verbatim>\<open>True\<close> although 5 is not less than 5.
\<close>

theorem MemoryCache_get_at_expiry_instant:
  "snd (MemoryCache_get ''k'' 5 [(''k'', Finite 5)]) = True
   \<and> od_get ''k'' [(''k'', Finite 5)] = Some (Finite 5)
   \<and> \<not> float_lt (Finite 5) (Finite 5) \<and> \<not> ((5::real) < 5)"
  by (simp add: MemoryCache_get_def od_get_def)

text \<open>
  Claim C3, amended: for every key, \<^verbatim>\<open>MemoryCache.get\<close> returns true iff the key is
  present and live, where an entry is live iff the clock reading is less than or equal
  to its stored expiry instant (it has expired once the expiry instant is strictly less
  than the reading). If the key is present but expired, the entry is removed from the
  mapping, the other entries stay, and false is returned. For a missing key the check
  returns false and leaves the cache as it is; it raises in no case (the function
  returns a value for every input). A check that returns true changes nothing.
\<close>

theorem MemoryCache_get_liveness:
  "(snd (MemoryCache_get key now c) \<longleftrightarrow> (\<exists>e. od_get key c = Some e \<and> float_le (Finite now) e))
   \<and> (\<forall>e. od_get key c = Some e \<and> float_lt e (Finite now) \<longrightarrow>
         MemoryCache_get key now c = (od_pop key c, False)
         \<and> key \<notin> od_keys (od_pop key c)
         \<and> (\<forall>k. k \<noteq> key \<longrightarrow> od_get k (od_pop key c) = od_get k c))
   \<and> (key \<notin> od_keys c \<longrightarrow> MemoryCache_get key now c = (c, False))
   \<and> (snd (MemoryCache_get key now c) \<longrightarrow> fst (MemoryCache_get key now c) = c)
   \<and> (\<forall>x. float_le (Finite now) (Finite x) \<longleftrightarrow> now \<le> x)"
  by (auto simp: MemoryCache_get_def MemoryCache_delete_def od_keys_pop od_get_pop
      float_le_iff od_get_None_iff [symmetric] split: option.splits)

theorem MemoryCache_get_liveness_witness:
  "MemoryCache_get ''k'' 7 [(''a'', Finite 9), (''k'', Finite 5)] = ([(''a'', Finite 9)], False)
   \<and> MemoryCache_get ''k'' 5 [(''a'', Finite 9), (''k'', Finite 5)] =
       ([(''a'', Finite 9), (''k'', Finite 5)], True)
   \<and> MemoryCache_get ''a'' 7 [(''a'', PosInf), (''k'', Finite 5)] =
       ([(''a'', PosInf), (''k'', Finite 5)], True)
   \<and> MemoryCache_get ''z'' 5 [(''a'', Finite 9), (''k'', Finite 5)] =
       ([(''a'', Finite 9), (''k'', Finite 5)], False)"
  using MemoryCache_get_liveness [of "''k''" 7 "[(''a'', Finite 9), (''k'', Finite 5)]"]
    MemoryCache_get_liveness [of "''k''" 5 "[(''a'', Finite 9), (''k'', Finite 5)]"]
    MemoryCache_get_liveness [of "''a''" 7 "[(''a'', PosInf), (''k'', Finite 5)]"]
    MemoryCache_get_liveness [of "''z''" 5 "[(''a'', Finite 9), (''k'', Finite 5)]"]
  by (simp add: od_get_def od_pop_def od_keys_def prod_eq_iff)

text \<open>
  Claim C5, as the specification states it, has \<^verbatim>\<open>MemoryCache.set\<close> fail iff
  \<^verbatim>\<open>ttl_seconds \<le> 0\<close>, and never for a positive \<^verbatim>\<open>ttl_seconds\<close>. The sum
  \<^verbatim>\<open>time.monotonic() + ttl_seconds\<close> converts the \<^verbatim>\<open>int\<close> to a float first, and an
  \<^verbatim>\<open>int\<close> beyond the range of the doubles cannot be converted: \<^verbatim>\<open>set\<close> with the positive
  TTL \<^verbatim>\<open>2**1024\<close> raises \<^verbatim>\<open>OverflowError\<close> and leaves the cache as it was.
\<close>

theorem MemoryCache_set_huge_ttl:
  "MemoryCache_set sample_lib ''k'' (2 ^ 1024) 0 [] =
     ([], Inl (Exn OverflowError ''int too large to convert to float'' None))
   \<and> (0::int) < 2 ^ 1024"
  using MemoryCache_set_overflow [OF _ float_of_int_overflow, of sample_lib "''k''" 0 "[]"]
  by simp

text \<open>
  Claim C5, amended: \<^verbatim>\<open>MemoryCache.set\<close> fails exactly in two cases, and then leaves
  the cache as it was: with the cache error for an invalid TTL iff
  \<^verbatim>\<open>ttl_seconds \<le> 0\<close>, and with \<^verbatim>\<open>OverflowError\<close> iff \<^verbatim>\<open>ttl_seconds\<close> is a positive
  \<^verbatim>\<open>int\<close> too large to convert to a float (\<open>2^1024 - 2^970\<close> or more). For every other
  positive \<^verbatim>\<open>ttl_seconds\<close> it never fails, whether or not the key is already there: the
  key's expiry becomes the float sum of the clock reading and the converted TTL, the key
  takes the last (most recently inserted) position, every other entry keeps its value
  and its relative position, and the keys stay distinct. The float sum is the double
  nearest \<open>now + ttl_seconds\<close> when the TTL is itself a double and the sum is in range.
\<close>

theorem MemoryCache_set_ttl:
  "((\<exists>e. snd (MemoryCache_set L key ttl now c) = Inl e) \<longleftrightarrow>
       ttl \<le> 0 \<or> float_overflow \<le> real_of_int ttl)
   \<and> (ttl \<le> 0 \<longrightarrow>
         MemoryCache_set L key ttl now c =
           (c, Inl (Exn CacheError ''TTL must be a positive number'' None)))
   \<and> (0 < ttl \<and> float_overflow \<le> real_of_int ttl \<longrightarrow>
         MemoryCache_set L key ttl now c =
           (c, Inl (Exn OverflowError ''int too large to convert to float'' None)))
   \<and> (0 < ttl \<and> real_of_int ttl < float_overflow \<longrightarrow>
         MemoryCache_set L key ttl now c =
           (od_pop key c @ [(key, float_add L now (float_round L (real_of_int ttl)))], Inr ())
         \<and> od_get key (fst (MemoryCache_set L key ttl now c)) =
             Some (float_add L now (float_round L (real_of_int ttl)))
         \<and> last (fst (MemoryCache_set L key ttl now c)) =
             (key, float_add L now (float_round L (real_of_int ttl)))
         \<and> (\<forall>k. k \<noteq> key \<longrightarrow> od_get k (fst (MemoryCache_set L key ttl now c)) = od_get k c)
         \<and> (od_inv c \<longrightarrow> od_inv (fst (MemoryCache_set L key ttl now c)))
         \<and> (is_double L (real_of_int ttl) \<and> \<bar>now + real_of_int ttl\<bar> < float_overflow \<longrightarrow>
               float_add L now (float_round L (real_of_int ttl)) =
                 Finite (float_round L (now + real_of_int ttl))))"
proof (cases "0 < ttl")
  case pos: True
  show ?thesis
  proof (cases "float_overflow \<le> real_of_int ttl")
    case True
    with pos have "float_of_int L ttl =
        Inl (Exn OverflowError ''int too large to convert to float'' None)"
      by (simp add: float_of_int_def)
    with pos True show ?thesis
      by (simp add: MemoryCache_set_overflow)
  next
    case False
    with pos have "float_of_int L ttl = Inr (float_round L (real_of_int ttl))"
      by (simp add: float_of_int_def)
    with pos False show ?thesis
      by (auto simp: MemoryCache_set_ok od_get_snoc od_inv_snoc is_double_def float_add_def)
  qed
next
  case False
  then show ?thesis
    by (simp add: MemoryCache_set_nonpositive)
qed

theorem MemoryCache_set_ttl_witness:
  "MemoryCache_set sample_lib ''k'' 0 3 [(''k'', Finite 5), (''a'', Finite 9)] =
     ([(''k'', Finite 5), (''a'', Finite 9)],
      Inl (Exn CacheError ''TTL must be a positive number'' None))
   \<and> MemoryCache_set sample_lib ''k'' (2 ^ 1024) 3 [(''k'', Finite 5), (''a'', Finite 9)] =
     ([(''k'', Finite 5), (''a'', Finite 9)],
      Inl (Exn OverflowError ''int too large to convert to float'' None))
   \<and> MemoryCache_set sample_lib ''k'' 10 3 [(''k'', Finite 5), (''a'', Finite 9)] =
       ([(''a'', Finite 9), (''k'', Finite 13)], Inr ())
   \<and> MemoryCache_set sample_lib ''n'' 10 3 [(''k'', Finite 5), (''a'', Finite 9)] =
       ([(''k'', Finite 5), (''a'', Finite 9), (''n'', Finite 13)], Inr ())"
proof -
  let ?c = "[(''k'', Finite 5), (''a'', Finite 9)]"
  have small: "real_of_int 10 < float_overflow" "\<bar>3 + real_of_int 10\<bar> < float_overflow"
    using float_overflow_large by simp_all
  have big: "float_overflow \<le> real_of_int (2 ^ 1024)"
    using float_overflow_power by simp
  have dbl: "is_double sample_lib (real_of_int 10)"
    by (rule sample_is_double) simp
  from MemoryCache_set_ttl [of sample_lib "''k''" 0 3 ?c]
  have 1: "MemoryCache_set sample_lib ''k'' 0 3 ?c =
      (?c, Inl (Exn CacheError ''TTL must be a positive number'' None))"
    by simp
  from MemoryCache_set_ttl [of sample_lib "''k''" "2 ^ 1024" 3 ?c] big
  have 2: "MemoryCache_set sample_lib ''k'' (2 ^ 1024) 3 ?c =
      (?c, Inl (Exn OverflowError ''int too large to convert to float'' None))"
    by simp
  from MemoryCache_set_ttl [of sample_lib "''k''" 10 3 ?c] small dbl
  have 3: "MemoryCache_set sample_lib ''k'' 10 3 ?c = ([(''a'', Finite 9), (''k'', Finite 13)], Inr ())"
    by (simp add: od_pop_def)
  from MemoryCache_set_ttl [of sample_lib "''n''" 10 3 ?c] small dbl
  have 4: "MemoryCache_set sample_lib ''n'' 10 3 ?c =
      ([(''k'', Finite 5), (''a'', Finite 9), (''n'', Finite 13)], Inr ())"
    by (simp add: od_pop_def)
  from 1 2 3 4 show ?thesis by blast
qed

subsection \<open>The deduplicator\<close>

lemma isinstance_leaf:
  "isinstance e SerializationError \<longleftrightarrow> cls e = SerializationError"
  "isinstance e CacheError \<longleftrightarrow> cls e = CacheError"
  by (cases e; cases "cls e"; simp add: isinstance_def issubclass_def)+


lemma isinstance_ValueError:
  "isinstance e ValueError \<longleftrightarrow> cls e = ValueError \<or> cls e = JSONDecodeError"
  by (cases e; cases "cls e"; simp add: isinstance_def issubclass_def)

lemma derive_cache_key_cache [simp]:
  "derive_cache_key L (d\<lparr>cache := c\<rparr>) m fmt ck = derive_cache_key L d m fmt ck"
  by (cases ck) (simp_all add: derive_cache_key_def split: sum.splits)

lemma derive_cache_key_ttl [simp]:
  "derive_cache_key L (d\<lparr>ttl_seconds := n\<rparr>) m fmt ck = derive_cache_key L d m fmt ck"
  by (cases ck) (simp_all add: derive_cache_key_def split: sum.splits)

lemma derive_cache_key_custom:
  "derive_cache_key L d m fmt (Some ck) = Inr (key_prefix d @ ck)"
  by (simp add: derive_cache_key_def)

text \<open>The three outcomes of \<^verbatim>\<open>set\<close>.\<close>

lemma MemoryCache_set_cases:
  "MemoryCache_set L key ttl now c =
     (if ttl \<le> 0 then (c, Inl (Exn CacheError ''TTL must be a positive number'' None))
      else if float_overflow \<le> real_of_int ttl
        then (c, Inl (Exn OverflowError ''int too large to convert to float'' None))
      else (od_pop key c @ [(key, float_add L now (float_round L (real_of_int ttl)))], Inr ()))"
  by (simp add: MemoryCache_set_def float_of_int_def od_move_to_end_setitem)

text \<open>The outcomes of \<^verbatim>\<open>is_duplicate\<close> once the cache key is there.\<close>

lemma is_duplicate_key:
  assumes "derive_cache_key L d m fmt ck = Inr k"
  shows "is_duplicate L d m fmt ck t0 t1 =
     (case MemoryCache_get k t0 (cache d) of
        (c1, True) \<Rightarrow> (d, Inr True)
      | (c1, False) \<Rightarrow>
          if ttl_seconds d \<le> 0
          then (d\<lparr>cache := od_pop k (cache d)\<rparr>,
                Inl (Exn CacheError ''TTL must be a positive number'' None))
          else if float_overflow \<le> real_of_int (ttl_seconds d)
          then (d\<lparr>cache := od_pop k (cache d)\<rparr>,
                Inl (Exn CacheError
                       ''Unexpected error during deduplication: int too large to convert to float''
                       (Some (Exn OverflowError ''int too large to convert to float'' None))))
          else (d\<lparr>cache := od_pop k (cache d) @
                  [(k, float_add L t1 (float_round L (real_of_int (ttl_seconds d))))]\<rparr>,
                Inr False))"
proof (cases "MemoryCache_get k t0 (cache d)")
  case (Pair c1 b)
  show ?thesis
  proof (cases b)
    case True
    with Pair have "c1 = cache d" by (simp add: MemoryCache_get_True_same)
    with Pair True assms show ?thesis
      by (simp add: is_duplicate_def is_duplicate_try_def)
  next
    case False
    with Pair have c1: "c1 = od_pop k (cache d)" "k \<notin> od_keys c1"
      using MemoryCache_get_False_absent [of k t0 "cache d" c1] by auto
    then have pp: "od_pop k c1 = od_pop k (cache d)" by (simp add: od_pop_absent)
    from Pair False assms c1 pp show ?thesis
      by (simp add: is_duplicate_def is_duplicate_try_def MemoryCache_set_cases isinstance_leaf)
  qed
qed

lemma is_duplicate_hash_error:
  assumes "hash_message L (hasher d) m fmt = Inl e0"
  shows "is_duplicate L d m fmt None t0 t1 =
     (d, Inl (if cls e0 = SerializationError \<or> cls e0 = CacheError then e0
              else Exn CacheError (''Unexpected error during deduplication: '' @ msg e0)
                     (Some e0)))"
  using assms
  by (simp add: is_duplicate_def is_duplicate_try_def derive_cache_key_def isinstance_leaf)

lemma Deduplicator_init_positive:
  "Deduplicator_init ttl cb alg p = Inr d \<Longrightarrow> 0 < ttl_seconds d"
  by (auto simp: Deduplicator_init_def split: option.splits if_splits)

text \<open>The sample deduplicator on the sample messages.\<close>

lemma sample_dedup_init:
  "Deduplicator_init (PyInt 1) None (Member SHA256) ''dedup:'' = Inr sample_dedup"
  by (simp add: Deduplicator_init_def sample_dedup_def MemoryCache_init_def MessageHasher_init_def)

lemma sample_key_id:
  \<open>derive_cache_key sample_lib sample_dedup (Data (PyDict [(''id'', PyStr ''123'')])) ''json'' None
     = Inr ''dedup:sha256:{"id": "123"}''\<close>
  by code_simp

lemma sample_dedup_fields:
  "cache sample_dedup = []" "ttl_seconds sample_dedup = 1" "key_prefix sample_dedup = ''dedup:''"
  "hasher sample_dedup = \<lparr>algorithm = Member SHA256, sort_keys = True\<rparr>"
  by (simp_all add: sample_dedup_def)

lemma sample_small:
  "\<not> float_overflow \<le> 1" "\<not> (1 / 2 :: real) + 1 \<le> - float_overflow"
  using float_overflow_large by simp_all

text \<open>
  Claim C1, as the specification states it, has \<^verbatim>\<open>is_duplicate\<close> return false and
  record the key for every message whose key is not in the cache. The constructor
  accepts every positive \<^verbatim>\<open>int\<close> as TTL; with the TTL \<^verbatim>\<open>2**1024\<close>, which no float can
  hold, the insert raises \<^verbatim>\<open>OverflowError\<close>, and the call on a fresh message with an
  empty cache fails with a \<^verbatim>\<open>CacheError\<close> instead of returning false, with nothing
  recorded.
\<close>

theorem is_duplicate_huge_ttl:
  \<open>Deduplicator_init (PyInt (2 ^ 1024)) None (Member SHA256) ''dedup:'' =
     Inr (sample_dedup\<lparr>ttl_seconds := 2 ^ 1024\<rparr>)
   \<and> derive_cache_key sample_lib (sample_dedup\<lparr>ttl_seconds := 2 ^ 1024\<rparr>)
       (Data (PyDict [(''id'', PyStr ''123'')])) ''json'' None = Inr ''dedup:sha256:{"id": "123"}''
   \<and> cache (sample_dedup\<lparr>ttl_seconds := 2 ^ 1024\<rparr>) = []
   \<and> is_duplicate sample_lib (sample_dedup\<lparr>ttl_seconds := 2 ^ 1024\<rparr>)
       (Data (PyDict [(''id'', PyStr ''123'')])) ''json'' None 0 0 =
     (sample_dedup\<lparr>ttl_seconds := 2 ^ 1024\<rparr>,
      Inl (Exn CacheError
             ''Unexpected error during deduplication: int too large to convert to float''
             (Some (Exn OverflowError ''int too large to convert to float'' None))))\<close>
proof -
  let ?d = "sample_dedup\<lparr>ttl_seconds := 2 ^ 1024\<rparr>"
  let ?m = "Data (PyDict [(''id'', PyStr ''123'')])"
  have init: "Deduplicator_init (PyInt (2 ^ 1024)) None (Member SHA256) ''dedup:'' = Inr ?d"
    by (simp add: Deduplicator_init_def sample_dedup_def MemoryCache_init_def
        MessageHasher_init_def)
  have k: \<open>derive_cache_key sample_lib ?d ?m ''json'' None = Inr ''dedup:sha256:{"id": "123"}''\<close>
    using sample_key_id by simp
  have c: "cache ?d = []" by (simp add: sample_dedup_def)
  have big: "float_overflow \<le> real_of_int (ttl_seconds ?d)"
    using float_overflow_power by simp
  have pos: "\<not> ttl_seconds ?d \<le> 0" by simp
  have "is_duplicate sample_lib ?d ?m ''json'' None 0 0 =
     (?d, Inl (Exn CacheError
             ''Unexpected error during deduplication: int too large to convert to float''
             (Some (Exn OverflowError ''int too large to convert to float'' None))))"
    unfolding is_duplicate_key [OF k]
    using big pos
    by (simp add: MemoryCache_get_def od_get_def od_pop_def sample_dedup_fields)
  with init k c show ?thesis by blast
qed

text \<open>
  Claim C1, amended: for every message whose derived cache key \<open>k\<close> is not present in
  the cache of a deduplicator whose (positive) configured TTL can be converted to a
  float (it is below \<open>2^1024 - 2^970\<close>), \<^verbatim>\<open>is_duplicate\<close> returns false and records the
  key: it appends \<open>k\<close> with, as expiry, the float sum of \<open>t1\<close>, the clock reading of the
  insert, and the TTL. Calling \<^verbatim>\<open>is_duplicate\<close> again with the same message at a clock
  reading \<open>t2\<close> before the TTL elapses returns true: at every reading that is not after
  the stored expiry, which holds of every reading \<open>t2 < t1 + ttl_seconds\<close> when the TTL is
  itself a double (as every \<^verbatim>\<open>int\<close> up to \<open>2^53\<close> is) and rounding is monotone.
\<close>

theorem is_duplicate_first_seen_then_repeat:
  assumes "0 < ttl_seconds d"
    and "real_of_int (ttl_seconds d) < float_overflow"
    and "derive_cache_key L d m fmt ck = Inr k"
    and "k \<notin> od_keys (cache d)"
    and "e = float_add L t1 (float_round L (real_of_int (ttl_seconds d)))"
  shows "is_duplicate L d m fmt ck t0 t1 = (d\<lparr>cache := cache d @ [(k, e)]\<rparr>, Inr False)
     \<and> (float_le (Finite t2) e \<longrightarrow>
          is_duplicate L (d\<lparr>cache := cache d @ [(k, e)]\<rparr>) m fmt ck t2 t3 =
            (d\<lparr>cache := cache d @ [(k, e)]\<rparr>, Inr True))
     \<and> (t2 < t1 + real_of_int (ttl_seconds d) \<and> monotone_rounding L \<and> is_double L t2
          \<and> is_double L (real_of_int (ttl_seconds d)) \<longrightarrow>
          is_duplicate L (d\<lparr>cache := cache d @ [(k, e)]\<rparr>) m fmt ck t2 t3 =
            (d\<lparr>cache := cache d @ [(k, e)]\<rparr>, Inr True))"
proof -
  define d1 where "d1 = d\<lparr>cache := cache d @ [(k, e)]\<rparr>"
  have first: "is_duplicate L d m fmt ck t0 t1 = (d1, Inr False)"
    using assms
    by (simp add: d1_def is_duplicate_key MemoryCache_get_absent od_pop_absent)
  have k1: "derive_cache_key L d1 m fmt ck = Inr k"
    using assms by (simp add: d1_def)
  have repeat: "is_duplicate L d1 m fmt ck t2 t3 = (d1, Inr True)"
    if "float_le (Finite t2) e"
  proof -
    have "MemoryCache_get k t2 (cache d1) = (cache d1, True)"
      using that assms(4) MemoryCache_get_after_set [of t2 e k "cache d"]
      by (simp add: d1_def od_pop_absent)
    then show ?thesis by (simp add: is_duplicate_key [OF k1])
  qed
  have "float_le (Finite t2) e"
    if "t2 < t1 + real_of_int (ttl_seconds d)" "monotone_rounding L" "is_double L t2"
      "is_double L (real_of_int (ttl_seconds d))"
  proof -
    from that(4) have "float_round L (real_of_int (ttl_seconds d)) = real_of_int (ttl_seconds d)"
      by (simp add: is_double_def)
    with before_float_sum [OF that(2,3,1)] assms(5) show ?thesis by simp
  qed
  with first repeat show ?thesis by (auto simp: d1_def)
qed

theorem is_duplicate_first_seen_then_repeat_witness:
  \<open>is_duplicate sample_lib sample_dedup (Data (PyDict [(''id'', PyStr ''123'')])) ''json'' None 0 0 =
     (sample_dedup\<lparr>cache := [(''dedup:sha256:{"id": "123"}'', Finite 1)]\<rparr>, Inr False)
   \<and> is_duplicate sample_lib (sample_dedup\<lparr>cache := [(''dedup:sha256:{"id": "123"}'', Finite 1)]\<rparr>)
       (Data (PyDict [(''id'', PyStr ''123'')])) ''json'' None (1 / 2) (1 / 2) =
     (sample_dedup\<lparr>cache := [(''dedup:sha256:{"id": "123"}'', Finite 1)]\<rparr>, Inr True)\<close>
proof -
  have h1: "0 < ttl_seconds sample_dedup" by (simp add: sample_dedup_def)
  have h2: "real_of_int (ttl_seconds sample_dedup) < float_overflow"
    using float_overflow_large by (simp add: sample_dedup_def)
  have h4: \<open>''dedup:sha256:{"id": "123"}'' \<notin> od_keys (cache sample_dedup)\<close>
    by (simp add: sample_dedup_def od_keys_def)
  have h5: "Finite 1 = float_add sample_lib 0
      (float_round sample_lib (real_of_int (ttl_seconds sample_dedup)))"
    using float_add_small [of 0 1 sample_lib] by (simp add: sample_dedup_def)
  have t: "(1 / 2 :: real) < 0 + real_of_int (ttl_seconds sample_dedup)"
    by (simp add: sample_dedup_def)
  have dbl: "is_double sample_lib (1 / 2)"
    "is_double sample_lib (real_of_int (ttl_seconds sample_dedup))"
    by (rule sample_is_double, simp add: sample_dedup_def)+
  have c: "cache sample_dedup = []" by (simp add: sample_dedup_def)
  show ?thesis
    using is_duplicate_first_seen_then_repeat [OF h1 h2 sample_key_id h4 h5, of 0 "1 / 2" "1 / 2"]
      t sample_monotone dbl
    by (simp add: c)
qed

text \<open>
  Claim C4: when \<^verbatim>\<open>is_duplicate\<close> returns true, the call has changed nothing: the
  deduplicator after the call is the one before it, so no insert has been performed and
  the expiry instant of the entry has not been refreshed or extended.
\<close>

theorem is_duplicate_true_leaves_cache:
  assumes "is_duplicate L d m fmt ck t0 t1 = (d', Inr True)"
  shows "d' = d \<and> cache d' = cache d"
proof (cases "derive_cache_key L d m fmt ck")
  case (Inl e)
  with assms show ?thesis
    by (simp add: is_duplicate_def is_duplicate_try_def split: if_splits)
next
  case (Inr k)
  with assms show ?thesis
    by (auto simp: is_duplicate_key split: prod.splits bool.splits if_splits)
qed

theorem is_duplicate_true_leaves_cache_witness:
  \<open>is_duplicate sample_lib (sample_dedup\<lparr>cache := [(''dedup:sha256:{"id": "123"}'', Finite 1)]\<rparr>)
       (Data (PyDict [(''id'', PyStr ''123'')])) ''json'' None (1 / 2) (3 / 4) =
     (sample_dedup\<lparr>cache := [(''dedup:sha256:{"id": "123"}'', Finite 1)]\<rparr>, Inr True)
   \<and> cache (sample_dedup\<lparr>cache := [(''dedup:sha256:{"id": "123"}'', Finite 1)]\<rparr>) =
       [(''dedup:sha256:{"id": "123"}'', Finite 1)]\<close>
proof -
  let ?d = \<open>sample_dedup\<lparr>cache := [(''dedup:sha256:{"id": "123"}'', Finite 1)]\<rparr>\<close>
  let ?m = "Data (PyDict [(''id'', PyStr ''123'')])"
  have k: \<open>derive_cache_key sample_lib ?d ?m ''json'' None = Inr ''dedup:sha256:{"id": "123"}''\<close>
    by (simp add: sample_key_id)
  have "snd (is_duplicate sample_lib ?d ?m ''json'' None (1 / 2) (3 / 4)) = Inr True"
    by (simp add: is_duplicate_key [OF k] MemoryCache_get_def od_get_def)
  then have "is_duplicate sample_lib ?d ?m ''json'' None (1 / 2) (3 / 4) =
      (fst (is_duplicate sample_lib ?d ?m ''json'' None (1 / 2) (3 / 4)), Inr True)"
    by (simp add: prod_eq_iff)
  from is_duplicate_true_leaves_cache [OF this] this show ?thesis by simp
qed

text \<open>
  Claim C6: when \<^verbatim>\<open>custom_key\<close> is supplied, the cache key is exactly
  \<^verbatim>\<open>key_prefix + custom_key\<close> and the hasher is not consulted: the outcome of the call
  is the same for every message and format, whatever \<^verbatim>\<open>json.loads\<close>, the float
  \<^verbatim>\<open>repr\<close>, the digest and the recursion limit are. Hence, for any two messages
  sharing a custom key, once the first call has returned false, the second call, made
  at a clock reading within the TTL of the first insert, returns true (and changes
  nothing): at every double \<open>t2 < t1 + ttl_seconds\<close>, for a TTL that is itself a double
  and a monotone rounding, and more generally at every reading that is not after the
  expiry the first call stored.
\<close>

theorem is_duplicate_custom_key:
  "derive_cache_key L d m fmt (Some ck) = Inr (key_prefix d @ ck)
   \<and> is_duplicate L d m fmt (Some ck) t0 t1 =
       is_duplicate
         (L\<lparr>json_loads := jl, float_repr := fr, hashlib_hexdigest := hx, recursion_limit := rl\<rparr>)
         d m' fmt' (Some ck) t0 t1
   \<and> (is_duplicate L d m fmt (Some ck) t0 t1 = (d1, Inr False)
        \<and> t2 < t1 + real_of_int (ttl_seconds d)
        \<and> monotone_rounding L \<and> is_double L t2 \<and> is_double L (real_of_int (ttl_seconds d))
        \<longrightarrow> is_duplicate L d1 m' fmt' (Some ck) t2 t3 = (d1, Inr True))
   \<and> (is_duplicate L d m fmt (Some ck) t0 t1 = (d1, Inr False)
        \<and> float_le (Finite t2) (float_add L t1 (float_round L (real_of_int (ttl_seconds d))))
        \<longrightarrow> is_duplicate L d1 m' fmt' (Some ck) t2 t3 = (d1, Inr True))"
proof -
  let ?k = "key_prefix d @ ck"
  let ?e = "float_add L t1 (float_round L (real_of_int (ttl_seconds d)))"
  let ?L' = "L\<lparr>json_loads := jl, float_repr := fr, hashlib_hexdigest := hx, recursion_limit := rl\<rparr>"
  have k: "\<And>L d m fmt. derive_cache_key L d m fmt (Some ck) = Inr (key_prefix d @ ck)"
    by (simp add: derive_cache_key_def)
  have "float_add ?L' = float_add L"
    by (simp add: fun_eq_iff float_add_def)
  then have eq: "is_duplicate L d m fmt (Some ck) t0 t1 = is_duplicate ?L' d m' fmt' (Some ck) t0 t1"
    by (simp add: is_duplicate_key [OF k])
  have seq: "is_duplicate L d1 m' fmt' (Some ck) t2 t3 = (d1, Inr True)"
    if first: "is_duplicate L d m fmt (Some ck) t0 t1 = (d1, Inr False)"
      and t2: "float_le (Finite t2) ?e"
  proof -
    from first have d1: "d1 = d\<lparr>cache := od_pop ?k (cache d) @ [(?k, ?e)]\<rparr>"
      by (auto simp: is_duplicate_key [OF k] split: prod.splits bool.splits if_splits)
    have "MemoryCache_get ?k t2 (cache d1) = (cache d1, True)"
      using t2 MemoryCache_get_after_set [of t2 ?e ?k "cache d"]
      by (simp add: d1)
    moreover have "key_prefix d1 = key_prefix d" by (simp add: d1)
    ultimately show ?thesis
      using is_duplicate_key [OF k, of L d1 m' fmt' t2 t3] by simp
  qed
  have "float_le (Finite t2) ?e"
    if "t2 < t1 + real_of_int (ttl_seconds d)" "monotone_rounding L" "is_double L t2"
      "is_double L (real_of_int (ttl_seconds d))"
  proof -
    from that(4) have "float_round L (real_of_int (ttl_seconds d)) = real_of_int (ttl_seconds d)"
      by (simp add: is_double_def)
    with before_float_sum [OF that(2,3,1)] show ?thesis by simp
  qed
  with k eq seq show ?thesis by blast
qed

theorem is_duplicate_custom_key_witness:
  "is_duplicate sample_lib sample_dedup (Data (PyDict [(''id'', PyStr ''1'')])) ''json''
       (Some ''my-custom-key'') 0 0 =
     (sample_dedup\<lparr>cache := [(''dedup:my-custom-key'', Finite 1)]\<rparr>, Inr False)
   \<and> is_duplicate sample_lib (sample_dedup\<lparr>cache := [(''dedup:my-custom-key'', Finite 1)]\<rparr>)
       (Object None) ''xml'' (Some ''my-custom-key'') (1 / 2) (1 / 2) =
     (sample_dedup\<lparr>cache := [(''dedup:my-custom-key'', Finite 1)]\<rparr>, Inr True)"
proof -
  let ?m = "Data (PyDict [(''id'', PyStr ''1'')])"
  let ?d1 = "sample_dedup\<lparr>cache := [(''dedup:my-custom-key'', Finite 1)]\<rparr>"
  have k: "derive_cache_key sample_lib sample_dedup ?m ''json'' (Some ''my-custom-key'') =
      Inr ''dedup:my-custom-key''"
    by (simp add: derive_cache_key_def sample_dedup_def)
  have e: "float_add sample_lib 0 1 = Finite 1"
    using float_add_small [of 0 1 sample_lib] by simp
  have first: "is_duplicate sample_lib sample_dedup ?m ''json'' (Some ''my-custom-key'') 0 0 =
      (?d1, Inr False)"
    unfolding is_duplicate_key [OF k]
    using sample_small(1)
    by (simp add: MemoryCache_get_def od_get_def od_pop_def sample_dedup_fields e)
  have t: "(1 / 2 :: real) < 0 + real_of_int (ttl_seconds sample_dedup)"
    by (simp add: sample_dedup_def)
  have dbl: "is_double sample_lib (1 / 2)"
    "is_double sample_lib (real_of_int (ttl_seconds sample_dedup))"
    by (rule sample_is_double, simp add: sample_dedup_def)+
  from is_duplicate_custom_key
    [of sample_lib sample_dedup ?m "''json''" "''my-custom-key''" 0 0 _ _ _ _ "Object None"
      "''xml''" ?d1 "1 / 2" "1 / 2"]
    first t dbl sample_monotone
  show ?thesis by simp
qed

text \<open>
  Claim C7: a failed \<^verbatim>\<open>is_duplicate\<close> call leaves no partial state. If deriving the
  key (hashing) raises, the deduplicator and its cache are exactly as before. If the
  key \<open>k\<close> was derived and the call still raises, then the read found the key not
  present and the insert failed, because the TTL is not positive or is too large for a
  float: the call raises a \<^verbatim>\<open>CacheError\<close> (the one of \<^verbatim>\<open>set\<close>, or one that wraps its
  \<^verbatim>\<open>OverflowError\<close>), the cache is the one before the call less an expired entry for
  \<open>k\<close>, and \<open>k\<close> is absent from it. So the next attempt with the same message is never
  answered ``duplicate'', and is answered ``not a duplicate'' as soon as the insert
  succeeds.
\<close>

theorem is_duplicate_failure_no_corruption:
  assumes "is_duplicate L d m fmt ck t0 t1 = (d', Inl e)"
  shows "(\<forall>e0. derive_cache_key L d m fmt ck = Inl e0 \<longrightarrow> d' = d)
     \<and> (\<forall>k. derive_cache_key L d m fmt ck = Inr k \<longrightarrow>
           d' = d\<lparr>cache := od_pop k (cache d)\<rparr> \<and> k \<notin> od_keys (cache d')
           \<and> cls e = CacheError
           \<and> e = (if ttl_seconds d \<le> 0 then Exn CacheError ''TTL must be a positive number'' None
                    else Exn CacheError
                           ''Unexpected error during deduplication: int too large to convert to float''
                           (Some (Exn OverflowError ''int too large to convert to float'' None)))
           \<and> (\<exists>e0. snd (MemoryCache_set L k (ttl_seconds d) t1 (od_pop k (cache d))) = Inl e0)
           \<and> (ttl_seconds d \<le> 0 \<or> float_overflow \<le> real_of_int (ttl_seconds d))
           \<and> (\<forall>t2 t3. snd (is_duplicate L d' m fmt ck t2 t3) \<noteq> Inr True)
           \<and> (\<forall>n t2 t3. 0 < n \<and> real_of_int n < float_overflow \<longrightarrow>
                 snd (is_duplicate L (d'\<lparr>ttl_seconds := n\<rparr>) m fmt ck t2 t3) = Inr False))"
proof (intro conjI allI impI)
  fix e0 assume "derive_cache_key L d m fmt ck = Inl e0"
  with assms show "d' = d"
    by (simp add: is_duplicate_def is_duplicate_try_def split: if_splits)
next
  fix k assume k: "derive_cache_key L d m fmt ck = Inr k"
  from assms show d': "d' = d\<lparr>cache := od_pop k (cache d)\<rparr>"
    by (auto simp: is_duplicate_key [OF k] split: prod.splits bool.splits if_splits)
  then show absent: "k \<notin> od_keys (cache d')" by (simp add: od_keys_pop)
  from assms show "cls e = CacheError"
    by (auto simp: is_duplicate_key [OF k] split: prod.splits bool.splits if_splits)
  from assms show "e = (if ttl_seconds d \<le> 0 then Exn CacheError ''TTL must be a positive number'' None
                    else Exn CacheError
                           ''Unexpected error during deduplication: int too large to convert to float''
                           (Some (Exn OverflowError ''int too large to convert to float'' None)))"
    by (auto simp: is_duplicate_key [OF k] split: prod.splits bool.splits if_splits)
  from assms show fail: "ttl_seconds d \<le> 0 \<or> float_overflow \<le> real_of_int (ttl_seconds d)"
    by (auto simp: is_duplicate_key [OF k] split: prod.splits bool.splits if_splits)
  then show "\<exists>e0. snd (MemoryCache_set L k (ttl_seconds d) t1 (od_pop k (cache d))) = Inl e0"
    by (auto simp: MemoryCache_set_cases)
  have k': "derive_cache_key L d' m fmt ck = Inr k" using k d' by simp
  { fix t2 t3
    show "snd (is_duplicate L d' m fmt ck t2 t3) \<noteq> Inr True"
      using absent
      by (simp add: is_duplicate_key [OF k'] MemoryCache_get_absent) }
  { fix n :: int and t2 t3 assume n: "0 < n \<and> real_of_int n < float_overflow"
    have k'': "derive_cache_key L (d'\<lparr>ttl_seconds := n\<rparr>) m fmt ck = Inr k"
      using k' by simp
    show "snd (is_duplicate L (d'\<lparr>ttl_seconds := n\<rparr>) m fmt ck t2 t3) = Inr False"
      using absent n
      by (simp add: is_duplicate_key [OF k''] MemoryCache_get_absent) }
qed

theorem is_duplicate_failure_no_corruption_witness:
  \<open>is_duplicate sample_lib (sample_dedup\<lparr>cache := [(''x'', Finite 9)]\<rparr>) (Data (PyStr ''{"id":''))
       ''json'' None 0 0 =
     (sample_dedup\<lparr>cache := [(''x'', Finite 9)]\<rparr>,
      Inl (Exn SerializationError ''Failed to serialize message to JSON: Expecting value''
             (Some (Exn JSONDecodeError ''Expecting value'' None))))
   \<and> is_duplicate sample_lib
       (sample_dedup\<lparr>ttl_seconds := 2 ^ 1024,
          cache := [(''x'', Finite 9), (''dedup:sha256:{"id": "123"}'', Finite 1)]\<rparr>)
       (Data (PyDict [(''id'', PyStr ''123'')])) ''json'' None 2 2 =
     (sample_dedup\<lparr>ttl_seconds := 2 ^ 1024, cache := [(''x'', Finite 9)]\<rparr>,
      Inl (Exn CacheError
             ''Unexpected error during deduplication: int too large to convert to float''
             (Some (Exn OverflowError ''int too large to convert to float'' None))))
   \<and> is_duplicate sample_lib
       (sample_dedup\<lparr>ttl_seconds := 0,
          cache := [(''x'', Finite 9), (''dedup:sha256:{"id": "123"}'', Finite 1)]\<rparr>)
       (Data (PyDict [(''id'', PyStr ''123'')])) ''json'' None 2 2 =
     (sample_dedup\<lparr>ttl_seconds := 0, cache := [(''x'', Finite 9)]\<rparr>,
      Inl (Exn CacheError ''TTL must be a positive number'' None))
   \<and> ''dedup:sha256:{"id": "123"}'' \<notin> od_keys [(''x'', Finite 9)]
   \<and> snd (is_duplicate sample_lib (sample_dedup\<lparr>cache := [(''x'', Finite 9)], ttl_seconds := 1\<rparr>)
       (Data (PyDict [(''id'', PyStr ''123'')])) ''json'' None 3 3) = Inr False\<close>
proof -
  let ?m = "Data (PyDict [(''id'', PyStr ''123'')])"
  let ?bad = \<open>Data (PyStr ''{"id":'')\<close>
  let ?c = \<open>[(''x'', Finite 9), (''dedup:sha256:{"id": "123"}'', Finite 1)]\<close>
  let ?dh = "sample_dedup\<lparr>ttl_seconds := 2 ^ 1024, cache := ?c\<rparr>"
  let ?dh' = "sample_dedup\<lparr>ttl_seconds := 2 ^ 1024, cache := [(''x'', Finite 9)]\<rparr>"
  let ?d = "sample_dedup\<lparr>ttl_seconds := 0, cache := ?c\<rparr>"
  let ?d' = "sample_dedup\<lparr>ttl_seconds := 0, cache := [(''x'', Finite 9)]\<rparr>"
  let ?e = "Exn CacheError ''TTL must be a positive number'' None"
  let ?o = "Exn CacheError
             ''Unexpected error during deduplication: int too large to convert to float''
             (Some (Exn OverflowError ''int too large to convert to float'' None))"
  have bad: "hash_message sample_lib (hasher (sample_dedup\<lparr>cache := [(''x'', Finite 9)]\<rparr>)) ?bad ''json'' =
      Inl (Exn SerializationError ''Failed to serialize message to JSON: Expecting value''
             (Some (Exn JSONDecodeError ''Expecting value'' None)))"
    by code_simp
  have A: "is_duplicate sample_lib (sample_dedup\<lparr>cache := [(''x'', Finite 9)]\<rparr>) ?bad ''json'' None 0 0 =
     (sample_dedup\<lparr>cache := [(''x'', Finite 9)]\<rparr>,
      Inl (Exn SerializationError ''Failed to serialize message to JSON: Expecting value''
             (Some (Exn JSONDecodeError ''Expecting value'' None))))"
    by (simp add: is_duplicate_hash_error [OF bad])
  have kh: \<open>derive_cache_key sample_lib ?dh ?m ''json'' None = Inr ''dedup:sha256:{"id": "123"}''\<close>
    using sample_key_id by simp
  have big: "float_overflow \<le> real_of_int (2 ^ 1024)"
    using float_overflow_power by simp
  have H: "is_duplicate sample_lib ?dh ?m ''json'' None 2 2 = (?dh', Inl ?o)"
    unfolding is_duplicate_key [OF kh]
    using big
    by (simp add: MemoryCache_get_def MemoryCache_delete_def od_get_def od_pop_def)
  have k: \<open>derive_cache_key sample_lib ?d ?m ''json'' None = Inr ''dedup:sha256:{"id": "123"}''\<close>
    using sample_key_id by simp
  have B: "is_duplicate sample_lib ?d ?m ''json'' None 2 2 = (?d', Inl ?e)"
    unfolding is_duplicate_key [OF k]
    by (simp add: MemoryCache_get_def MemoryCache_delete_def od_get_def od_pop_def)
  from is_duplicate_failure_no_corruption [OF B] k
  have "\<forall>n t2 t3. 0 < n \<and> real_of_int n < float_overflow \<longrightarrow>
      snd (is_duplicate sample_lib (?d'\<lparr>ttl_seconds := n\<rparr>) ?m ''json'' None t2 t3) = Inr False"
    by blast
  then have "snd (is_duplicate sample_lib (?d'\<lparr>ttl_seconds := 1\<rparr>) ?m ''json'' None 3 3) = Inr False"
    using float_overflow_large by simp
  then have C: "snd (is_duplicate sample_lib (sample_dedup\<lparr>cache := [(''x'', Finite 9)], ttl_seconds := 1\<rparr>)
      ?m ''json'' None 3 3) = Inr False"
    by simp
  from is_duplicate_failure_no_corruption [OF H] kh
  have D: \<open>''dedup:sha256:{"id": "123"}'' \<notin> od_keys (cache ?dh')\<close>
    by blast
  then have D': \<open>''dedup:sha256:{"id": "123"}'' \<notin> od_keys [(''x'', Finite 9)]\<close>
    by simp
  from A H B C D' show ?thesis by blast
qed






subsection \<open>Construction\<close>

text \<open>
  Claim C9, as the specification states it, has construction fail with
  \<^verbatim>\<open>ConfigurationError\<close> for an unrecognized hash algorithm. \<^verbatim>\<open>__init__\<close> checks
  \<^verbatim>\<open>ttl_seconds\<close> only and hands \<^verbatim>\<open>hash_algorithm\<close> to \<^verbatim>\<open>MessageHasher\<close>, which
  stores it: constructing with the plain string \<^verbatim>\<open>sha512\<close>, which is no member of
  \<^verbatim>\<open>HashAlgorithm\<close>, succeeds.
\<close>

theorem Deduplicator_init_unrecognized_algorithm:
  "Deduplicator_init (PyInt 60) None (PlainStr ''sha512'') ''dedup:'' =
     Inr \<lparr>ttl_seconds = 60, cache = [],
          hasher = \<lparr>algorithm = PlainStr ''sha512'', sort_keys = True\<rparr>,
          key_prefix = ''dedup:''\<rparr>"
  by (simp add: Deduplicator_init_def MessageHasher_init_def MemoryCache_init_def)

text \<open>
  Claim C9, amended: \<^verbatim>\<open>Deduplicator\<close> construction fails, with \<^verbatim>\<open>ConfigurationError\<close>,
  exactly when \<^verbatim>\<open>ttl_seconds\<close> is not a positive integer (an \<^verbatim>\<open>int\<close>, a \<^verbatim>\<open>bool\<close>
  counting as the integer it is, greater than 0). The hash algorithm is not checked at
  construction: whatever is passed is stored in the hasher. For a positive integer
  \<^verbatim>\<open>ttl_seconds\<close> construction succeeds, with that TTL, the given key prefix, key
  sorting enabled, and the given cache backend, or a new empty in-memory cache when
  none is supplied.
\<close>

theorem Deduplicator_init_validation:
  "((\<exists>e. Deduplicator_init ttl cb alg p = Inl e) \<longleftrightarrow> \<not> (\<exists>n. as_int ttl = Some n \<and> 0 < n))
   \<and> (\<forall>e. Deduplicator_init ttl cb alg p = Inl e \<longrightarrow> cls e = ConfigurationError)
   \<and> (\<forall>n. as_int ttl = Some n \<and> 0 < n \<longrightarrow>
         Deduplicator_init ttl cb alg p =
           Inr \<lparr>ttl_seconds = n,
                cache = (case cb of None \<Rightarrow> MemoryCache_init | Some c \<Rightarrow> c),
                hasher = \<lparr>algorithm = alg, sort_keys = True\<rparr>,
                key_prefix = p\<rparr>)"
  by (auto simp: Deduplicator_init_def MessageHasher_init_def split: option.splits)

theorem Deduplicator_init_validation_witness:
  "Deduplicator_init (PyInt 0) None (Member SHA256) ''dedup:'' =
     Inl (Exn ConfigurationError ''ttl_seconds must be a positive integer'' None)
   \<and> Deduplicator_init (PyFloat (Float (3 / 2))) None (Member SHA256) ''dedup:'' =
     Inl (Exn ConfigurationError ''ttl_seconds must be a positive integer'' None)
   \<and> Deduplicator_init (PyStr ''60'') None (Member SHA256) ''dedup:'' =
     Inl (Exn ConfigurationError ''ttl_seconds must be a positive integer'' None)
   \<and> Deduplicator_init (PyInt 60) None (Member MD5) ''p:'' =
     Inr \<lparr>ttl_seconds = 60, cache = [],
          hasher = \<lparr>algorithm = Member MD5, sort_keys = True\<rparr>, key_prefix = ''p:''\<rparr>
   \<and> Deduplicator_init (PyInt 60) (Some [(''k'', Finite 5)]) (Member MD5) ''p:'' =
     Inr \<lparr>ttl_seconds = 60, cache = [(''k'', Finite 5)],
          hasher = \<lparr>algorithm = Member MD5, sort_keys = True\<rparr>, key_prefix = ''p:''\<rparr>"
  using Deduplicator_init_validation [of "PyInt 0" None "Member SHA256" "''dedup:''"]
    Deduplicator_init_validation [of "PyInt 60" None "Member MD5" "''p:''"]
    Deduplicator_init_validation [of "PyInt 60" "Some [(''k'', Finite 5)]" "Member MD5" "''p:''"]
  by (simp add: Deduplicator_init_def MemoryCache_init_def)

subsection \<open>The hasher\<close>













subsection \<open>Canonical serialization\<close>













end
